theory Spec2Isabelle
  imports Complex_Main "HOL-Library.Word"
begin

unbundle bit_operations_syntax

section \<open>JavaScript strings\<close>

text \<open>
  Move tokens are JavaScript strings. They are modelled as \<^typ>\<open>string\<close>, a list of
  code units below 256; every token the decoder, the keyboard handler and the normalizer can
  produce lies in that range. The apostrophe of a prime move cannot end a string literal,
  so it has a name.
\<close>

abbreviation apos :: char where
  "apos \<equiv> CHR 0x27"




section \<open>cubeState.js: the notation normalizer\<close>



section \<open>Cube3D.jsx: the grid of sub-cubes and the move executor\<close>

datatype axis = X | Y | Z

record grid_pos =
  gx :: int
  gy :: int
  gz :: int

text \<open>
  Scene positions are multiples of \<^verbatim>\<open>cubeSize + spacing = 1.05\<close>. They are modelled
  as rationals: for the grid coordinates -1, 0 and 1 the products and quotients by 1.05
  that the source computes in floating point round to the same integers as the exact ones.
\<close>

record point =
  px :: rat
  py :: rat
  pz :: rat

text \<open>
  A cubie is the \<^verbatim>\<open>THREE.Group\<close> with its \<^verbatim>\<open>userData\<close>. The Euler
  \<^verbatim>\<open>rotation\<close> of the group is written in every animation frame and zeroed at the
  commit and by the reset; the source never reads it, and the model leaves it out.
\<close>

record cubie =
  position :: point
  originalPosition :: point
  gridPosition :: grid_pos
  index :: nat

definition cubeSize :: rat where
  "cubeSize = 1"

definition spacing :: rat where
  "spacing = 5 / 100"

definition scene_point :: "grid_pos \<Rightarrow> point" where
  "scene_point g =
     \<lparr>px = of_int (gx g) * (cubeSize + spacing),
      py = of_int (gy g) * (cubeSize + spacing),
      pz = of_int (gz g) * (cubeSize + spacing)\<rparr>"

text \<open>
  \<^verbatim>\<open>createCube\<close>: three nested loops, \<^verbatim>\<open>x\<close> outermost, each from -1 to 1;
  \<^verbatim>\<open>index\<close> is the length of the array before the push.
\<close>

definition solved_grid :: "grid_pos list" where
  "solved_grid =
     [\<lparr>gx = x, gy = y, gz = z\<rparr>. x \<leftarrow> [-1, 0, 1], y \<leftarrow> [-1, 0, 1], z \<leftarrow> [-1, 0, 1]]"

definition createCube :: "cubie list" where
  "createCube =
     map (\<lambda>(i, g). \<lparr>position = scene_point g, originalPosition = scene_point g,
                     gridPosition = g, index = i\<rparr>)
       (enumerate 0 solved_grid)"

text \<open>What \<^verbatim>\<open>parseMoveNotation\<close> returns when it does not return \<^verbatim>\<open>null\<close>.\<close>

record move =
  axis :: axis
  direction :: int
  layer :: int
  duration :: int

text \<open>
  \<^verbatim>\<open>notation.match(/^([RLUDFB])(['2]?)$/)\<close>: the two capture groups, or
  \<^verbatim>\<open>None\<close> for \<^verbatim>\<open>null\<close>. Without the \<^verbatim>\<open>m\<close> flag, \<^verbatim>\<open>$\<close> is the end
  of the input only.
\<close>

fun match_move :: "string \<Rightarrow> (char \<times> string) option" where
  "match_move [f] = (if f \<in> set ''RLUDFB'' then Some (f, []) else None)"
| "match_move [f, m] =
     (if f \<in> set ''RLUDFB'' \<and> m \<in> set [apos, CHR ''2''] then Some (f, [m]) else None)"
| "match_move _ = None"

definition faceMap :: "char \<rightharpoonup> axis \<times> int \<times> int" where
  "faceMap =
     [CHR ''R'' \<mapsto> (X, 1, 1), CHR ''L'' \<mapsto> (X, -1, -1),
      CHR ''U'' \<mapsto> (Y, 1, 1), CHR ''D'' \<mapsto> (Y, -1, -1),
      CHR ''F'' \<mapsto> (Z, 1, 1), CHR ''B'' \<mapsto> (Z, -1, -1)]"

text \<open>
  \<^verbatim>\<open>parseMoveNotation\<close>. \<^verbatim>\<open>rotations\<close> is 2 for a half turn and enters the
  duration only; the direction of a half turn is the face's own.
\<close>

definition parseMoveNotation :: "string \<Rightarrow> move option" where
  "parseMoveNotation notation =
     (case match_move notation of
        None \<Rightarrow> None
      | Some (f, modifier) \<Rightarrow>
          (case faceMap f of
             None \<Rightarrow> None
           | Some (ax, dir, lay) \<Rightarrow>
               (let direction = (if modifier = [apos] then dir * (-1) else dir);
                    rotations = (if modifier = [apos] then 1
                                 else if modifier = ''2'' then 2 else 1)
                in Some \<lparr>axis = ax, direction = direction, layer = lay,
                          duration = 300 * rotations\<rparr>)))"

text \<open>The filter predicate of \<^verbatim>\<open>getAffectedCubies\<close>.\<close>

definition on_layer :: "axis \<Rightarrow> int \<Rightarrow> cubie \<Rightarrow> bool" where
  "on_layer ax lay c =
     (let gridPos = gridPosition c in
      case ax of X \<Rightarrow> gx gridPos = lay | Y \<Rightarrow> gy gridPos = lay | Z \<Rightarrow> gz gridPos = lay)"

definition getAffectedCubies :: "axis \<Rightarrow> int \<Rightarrow> cubie list \<Rightarrow> cubie list" where
  "getAffectedCubies ax lay cs = filter (on_layer ax lay) cs"

text \<open>\<^verbatim>\<open>updateCubiePosition\<close>: the grid rotation, then the scene position baked in.\<close>

definition updateCubiePosition :: "cubie \<Rightarrow> axis \<Rightarrow> int \<Rightarrow> int \<Rightarrow> cubie" where
  "updateCubiePosition c ax lay dir =
     (let gridPos = gridPosition c;
          x = gx gridPos; y = gy gridPos; z = gz gridPos;
          newGridPos =
            (case ax of
               X \<Rightarrow> \<lparr>gx = x, gy = (if dir > 0 then - z else z), gz = (if dir > 0 then y else - y)\<rparr>
             | Y \<Rightarrow> \<lparr>gx = (if dir > 0 then z else - z), gy = y, gz = (if dir > 0 then - x else x)\<rparr>
             | Z \<Rightarrow> \<lparr>gx = (if dir > 0 then y else - y), gy = (if dir > 0 then - x else x), gz = z\<rparr>);
          newPos = \<lparr>px = of_int (gx newGridPos) * (cubeSize + spacing),
                    py = of_int (gy newGridPos) * (cubeSize + spacing),
                    pz = of_int (gz newGridPos) * (cubeSize + spacing)\<rparr>
      in c\<lparr>gridPosition := newGridPos, position := newPos, originalPosition := newPos\<rparr>)"

text \<open>
  \<^verbatim>\<open>animateMove\<close>, from the call to the settling of its promise. Destructuring the
  \<^verbatim>\<open>null\<close> of an unparsable notation throws inside the promise executor, so the promise
  rejects. Otherwise the frame at progress 1 commits: \<^verbatim>\<open>forEach\<close> over
  \<^verbatim>\<open>affectedCubies\<close> updates those cubies in place, once each, whatever the modifier;
  in the value model every cubie of the array that is among the affected ones is replaced
  by its update. The frames before only write the Euler rotation.
\<close>

datatype js_error = TypeError

definition animateMove :: "string \<Rightarrow> cubie list \<Rightarrow> js_error + cubie list" where
  "animateMove moveNotation cs =
     (case parseMoveNotation moveNotation of
        None \<Rightarrow> Inl TypeError
      | Some m \<Rightarrow>
          (let affectedCubies = getAffectedCubies (axis m) (layer m) cs in
           Inr (map (\<lambda>c. if c \<in> set affectedCubies
                          then updateCubiePosition c (axis m) (layer m) (direction m)
                          else c) cs)))"

text \<open>
  The component's mutable state. \<^verbatim>\<open>running\<close> is the notation held by the pending
  \<^verbatim>\<open>animateMove\<close> promise, \<^verbatim>\<open>reported\<close> the notations passed to
  \<^verbatim>\<open>console.error\<close> by the \<^verbatim>\<open>catch\<close> of \<^verbatim>\<open>executeMove\<close>, and
  \<^verbatim>\<open>completions\<close> counts the calls of \<^verbatim>\<open>onMoveComplete\<close> where the parent
  has given one.
\<close>

record engine =
  cubies :: "cubie list"
  isAnimating :: bool
  moveQueue :: "string list"
  isReady :: bool
  running :: "string option"
  reported :: "string list"
  completions :: nat

definition mounted :: engine where
  "mounted =
     \<lparr>cubies = createCube, isAnimating = False, moveQueue = [], isReady = False,
      running = None, reported = [], completions = 0\<rparr>"

text \<open>\<^verbatim>\<open>executeMove\<close> up to its \<^verbatim>\<open>await\<close>.\<close>

definition executeMove :: "string \<Rightarrow> engine \<Rightarrow> engine" where
  "executeMove moveNotation s =
     (if isAnimating s \<or> \<not> isReady s
      then s\<lparr>moveQueue := moveQueue s @ [moveNotation]\<rparr>
      else s\<lparr>isAnimating := True, running := Some moveNotation\<rparr>)"

text \<open>
  The rest of \<^verbatim>\<open>executeMove\<close>, run when the promise of the running move settles:
  the commit or the \<^verbatim>\<open>catch\<close>, then the \<^verbatim>\<open>finally\<close> block, which starts the
  next queued move or notifies completion.
\<close>

definition settle :: "engine \<Rightarrow> engine" where
  "settle s =
     (case running s of
        None \<Rightarrow> s
      | Some moveNotation \<Rightarrow>
          (let s1 = (case animateMove moveNotation (cubies s) of
                       Inl e \<Rightarrow> s\<lparr>reported := reported s @ [moveNotation]\<rparr>
                     | Inr cs \<Rightarrow> s\<lparr>cubies := cs\<rparr>);
               s2 = s1\<lparr>isAnimating := False, running := None\<rparr>
           in case moveQueue s2 of
                nextMove # rest \<Rightarrow> executeMove nextMove (s2\<lparr>moveQueue := rest\<rparr>)
              | [] \<Rightarrow> s2\<lparr>completions := completions s2 + 1\<rparr>))"

text \<open>\<^verbatim>\<open>Math.round\<close> rounds half up.\<close>

definition Math_round :: "rat \<Rightarrow> int" where
  "Math_round q = \<lfloor>q + 1 / 2\<rfloor>"

text \<open>\<^verbatim>\<open>resetCube\<close>: every cubie is rewritten from its own \<^verbatim>\<open>originalPosition\<close>.\<close>

definition resetCubie :: "cubie \<Rightarrow> cubie" where
  "resetCubie c =
     c\<lparr>position := originalPosition c,
       gridPosition :=
         \<lparr>gx = Math_round (px (originalPosition c) / (105 / 100)),
          gy = Math_round (py (originalPosition c) / (105 / 100)),
          gz = Math_round (pz (originalPosition c) / (105 / 100))\<rparr>\<rparr>"

definition resetCube :: "engine \<Rightarrow> engine" where
  "resetCube s = s\<lparr>cubies := map resetCubie (cubies s)\<rparr>"

text \<open>
  What can happen to the mounted component: the scene becomes ready, a move is passed to
  \<^verbatim>\<open>executeMove\<close>, the running animation settles, the reset button is pressed.
\<close>

datatype event = Ready | Execute string | Settle | Reset

fun apply_event :: "event \<Rightarrow> engine \<Rightarrow> engine" where
  "apply_event Ready s = s\<lparr>isReady := True\<rparr>"
| "apply_event (Execute m) s = executeMove m s"
| "apply_event Settle s = settle s"
| "apply_event Reset s = resetCube s"

definition run_events :: "event list \<Rightarrow> engine" where
  "run_events es = fold apply_event es mounted"

text \<open>
  The section 3 invariant: the grid coordinates of the cubies are the 27 points of
  \<open>{-1,0,1}\<^sup>3\<close>, each exactly once.
\<close>

definition grid_bijection :: "cubie list \<Rightarrow> bool" where
  "grid_bijection cs =
     (length cs = 27 \<and> distinct (map gridPosition cs) \<and>
      set (map gridPosition cs) = set solved_grid)"

section \<open>gan.js: the notification decoder\<close>

type_synonym byte = "8 word"

subsection \<open>The platform functions the text strategy calls\<close>

text \<open>
  \<^verbatim>\<open>new TextDecoder("utf-8").decode(dataView)\<close> is the UTF-8 decoder of the WHATWG
  Encoding Standard in replacement mode: a malformed sequence gives U+FFFD and the byte that
  broke it is read again. The state is the code point so far, the continuation bytes still
  needed, and the bounds on the next byte. The result is the list of code points.
\<close>

function utf8_run :: "nat \<times> nat \<times> nat \<times> nat \<Rightarrow> byte list \<Rightarrow> nat list" where
  "utf8_run (cp, needed, lower, upper) [] = (if needed = 0 then [] else [0xFFFD])"
| "utf8_run (cp, needed, lower, upper) (b # bs) =
     (if needed = 0 then
        (if unat b \<le> 0x7F then unat b # utf8_run (0, 0, 0x80, 0xBF) bs
         else if 0xC2 \<le> unat b \<and> unat b \<le> 0xDF then
           utf8_run (unat (b AND 0x1F), 1, 0x80, 0xBF) bs
         else if 0xE0 \<le> unat b \<and> unat b \<le> 0xEF then
           utf8_run (unat (b AND 0x0F), 2,
                     if b = 0xE0 then 0xA0 else 0x80, if b = 0xED then 0x9F else 0xBF) bs
         else if 0xF0 \<le> unat b \<and> unat b \<le> 0xF4 then
           utf8_run (unat (b AND 0x07), 3,
                     if b = 0xF0 then 0x90 else 0x80, if b = 0xF4 then 0x8F else 0xBF) bs
         else 0xFFFD # utf8_run (0, 0, 0x80, 0xBF) bs)
      else if unat b < lower \<or> upper < unat b then
        0xFFFD # utf8_run (0, 0, 0x80, 0xBF) (b # bs)
      else if needed = 1 then
        (cp * 64 + unat (b AND 0x3F)) # utf8_run (0, 0, 0x80, 0xBF) bs
      else utf8_run (cp * 64 + unat (b AND 0x3F), needed - 1, 0x80, 0xBF) bs)"
  by pat_completeness auto
termination
  by (relation "measure (\<lambda>((cp, needed, lower, upper), bs).
        2 * length bs + (if needed = 0 then 0 else 1))") auto

text \<open>A JavaScript string holds UTF-16 code units: a code point past U+FFFF is a pair.\<close>

definition utf16_units :: "nat \<Rightarrow> nat list" where
  "utf16_units cp =
     (if cp < 0x10000 then [cp]
      else [0xD800 + (cp - 0x10000) div 0x400, 0xDC00 + (cp - 0x10000) mod 0x400])"

text \<open>The decoder drops one leading byte order mark (\<^verbatim>\<open>ignoreBOM\<close> is false).\<close>

definition TextDecoder_decode :: "byte list \<Rightarrow> nat list" where
  "TextDecoder_decode dataView =
     (let cps = utf8_run (0, 0, 0x80, 0xBF) dataView
      in concat (map utf16_units
           (case cps of [] \<Rightarrow> [] | c # rest \<Rightarrow> if c = 0xFEFF then rest else cps)))"

text \<open>
  The code units that \<^verbatim>\<open>trim\<close> strips and \<^verbatim>\<open>\s\<close> matches: ECMAScript white space
  and line terminators.
\<close>

definition is_js_space :: "nat \<Rightarrow> bool" where
  "is_js_space u =
     (u \<in> set [0x09, 0x0A, 0x0B, 0x0C, 0x0D, 0x20, 0xA0, 0x1680, 0x2028, 0x2029, 0x202F,
               0x205F, 0x3000, 0xFEFF] \<or> (0x2000 \<le> u \<and> u \<le> 0x200A))"

definition text_trim :: "nat list \<Rightarrow> nat list" where
  "text_trim t = rev (dropWhile is_js_space (rev (dropWhile is_js_space t)))"

text \<open>The separator class \<^verbatim>\<open>[\s,;]\<close>.\<close>

definition is_separator :: "nat \<Rightarrow> bool" where
  "is_separator u = (is_js_space u \<or> u = 0x2C \<or> u = 0x3B)"

text \<open>
  \<^verbatim>\<open>split(/[\s,;]+/)\<close>: the pieces between the maximal runs of separators, with an
  empty piece before a leading run and after a trailing one.
\<close>

function text_split :: "nat list \<Rightarrow> nat list list" where
  "text_split [] = [[]]"
| "text_split (u # us) =
     (if is_separator u then [] # text_split (dropWhile is_separator us)
      else (case text_split us of
              [] \<Rightarrow> [[u]]
            | piece # pieces \<Rightarrow> (u # piece) # pieces))"
  by pat_completeness auto
termination
  by (relation "measure length") (auto simp: length_dropWhile_le less_Suc_eq_le)

text \<open>The test \<^verbatim>\<open>/^[URFDLBxyzMESurfdbxyz2']+$/.test(t)\<close>.\<close>

definition move_chars :: string where
  "move_chars = ''URFDLBxyzMESurfdbxyz2'' @ [apos]"

definition move_chars_test :: "nat list \<Rightarrow> bool" where
  "move_chars_test t = (t \<noteq> [] \<and> list_all (\<lambda>u. u \<in> set (map of_char move_chars)) t)"

subsection \<open>parseGanNotification\<close>

text \<open>
  Strategy 1, the \<^verbatim>\<open>try\<close> block: \<^verbatim>\<open>Some tokens\<close> where it returns, \<^verbatim>\<open>None\<close>
  where control falls through to the binary parse. \<^verbatim>\<open>filter(Boolean)\<close> drops the empty
  pieces. Accepted tokens are ASCII, so they convert to \<^typ>\<open>string\<close> unchanged.
\<close>

definition text_strategy :: "byte list \<Rightarrow> string list option" where
  "text_strategy dataView =
     (let text = TextDecoder_decode dataView in
      if text \<noteq> [] \<and> length (text_trim text) > 0 then
        (let tokens = filter (\<lambda>s. s \<noteq> []) (map text_trim (text_split (text_trim text)));
             valid = list_all move_chars_test tokens
         in if valid then Some (map (map char_of) tokens) else None)
      else None)"

definition idxToMove :: "string list" where
  "idxToMove =
     [''U'', ''R'', ''F'', ''D'', ''L'', ''B'',
      [CHR ''U'', apos], [CHR ''R'', apos], [CHR ''F'', apos],
      [CHR ''D'', apos], [CHR ''L'', apos], [CHR ''B'', apos]]"

definition nibbleFaceMap :: "string option list" where
  "nibbleFaceMap =
     [Some ''U'', Some ''R'', Some ''F'', Some ''D'', Some ''L'', Some ''B'', None, None]"

text \<open>
  The last loop of the function, with its index and the \<^verbatim>\<open>moves\<close> array.
  \<^verbatim>\<open>face\<close> is below 8, inside \<^verbatim>\<open>faceMap\<close>.
\<close>

function nibble_loop :: "byte list \<Rightarrow> nat \<Rightarrow> string list \<Rightarrow> string list" where
  "nibble_loop bytes i moves =
     (if i < length bytes then
        (let b = bytes ! i;
             face = b AND 0x07;
             turn = drop_bit 3 b AND 0x03;
             faceChar = nibbleFaceMap ! unat face
         in case faceChar of
              None \<Rightarrow> nibble_loop bytes (i + 1) moves
            | Some fc \<Rightarrow>
                (let notation = fc;
                     notation = (if turn = 1 then fc @ [apos] else notation);
                     notation = (if turn = 2 then fc @ ''2'' else notation)
                 in nibble_loop bytes (i + 1) (moves @ [notation])))
      else moves)"
  by pat_completeness auto
termination
  by (relation "measure (\<lambda>(bytes, i, moves). length bytes - i)") auto

declare nibble_loop.simps [simp del]

text \<open>
  The whole function on the bytes of the \<^verbatim>\<open>DataView\<close>. The copy loop into
  \<^verbatim>\<open>bytes\<close> is the identity on a byte list.
\<close>

definition parseGanNotification :: "byte list \<Rightarrow> string list" where
  "parseGanNotification dataView =
     (case text_strategy dataView of
        Some tokens \<Rightarrow> tokens
      | None \<Rightarrow>
          (let bytes = dataView in
           if length bytes = 1 \<and> bytes ! 0 < 12 then [idxToMove ! unat (bytes ! 0)]
           else if length bytes > 0 \<and> list_all (\<lambda>b. b < 12) bytes then
             map (\<lambda>b. idxToMove ! unat b) bytes
           else
             (let moves = nibble_loop bytes 0 [] in
              if moves \<noteq> [] then moves else [])))"

section \<open>Auxiliary notions for the proofs\<close>

text \<open>
  What a commit on the layer \<open>lay\<close> of axis \<open>ax\<close> does to one grid coordinate, read off
  \<^verbatim>\<open>getAffectedCubies\<close> and \<^verbatim>\<open>updateCubiePosition\<close>.
\<close>

definition turned :: "axis \<Rightarrow> int \<Rightarrow> int \<Rightarrow> grid_pos \<Rightarrow> grid_pos" where
  "turned ax lay dir g =
     (case ax of
        X \<Rightarrow> if gx g = lay
             then \<lparr>gx = gx g, gy = (if dir > 0 then - gz g else gz g),
                   gz = (if dir > 0 then gy g else - gy g)\<rparr>
             else g
      | Y \<Rightarrow> if gy g = lay
             then \<lparr>gx = (if dir > 0 then gz g else - gz g), gy = gy g,
                   gz = (if dir > 0 then - gx g else gx g)\<rparr>
             else g
      | Z \<Rightarrow> if gz g = lay
             then \<lparr>gx = (if dir > 0 then gy g else - gy g),
                   gy = (if dir > 0 then - gx g else gx g), gz = gz g\<rparr>
             else g)"

text \<open>
  The canonical move tokens, \<^verbatim>\<open>^[URFDLB]['2]?$\<close> in the words of the specification,
  enumerated: a face letter alone, or followed by an apostrophe or by \<^verbatim>\<open>2\<close>.
\<close>

definition move_tokens :: "string list" where
  "move_tokens = [f # m. f \<leftarrow> ''URFDLB'', m \<leftarrow> [[], [apos], ''2'']]"

text \<open>
  What the nibble-packed strategy makes of one byte, in the words of the specification,
  with the reserved turn value 3 read as the code reads it: no token for a face field of 6
  or 7; otherwise the face letter, followed by an apostrophe for turn 1, by \<^verbatim>\<open>2\<close> for
  turn 2, and by nothing for turn 0 and turn 3.
\<close>

definition nibble_token_spec :: "byte \<Rightarrow> string list" where
  "nibble_token_spec b =
     (let face = b AND 0x07; turn = drop_bit 3 b AND 0x03 in
      if face = 6 \<or> face = 7 then []
      else [(''URFDLB'' ! unat face) #
            (if turn = 1 then [apos] else if turn = 2 then ''2'' else [])])"

text \<open>
  A cubie is baked when its \<^verbatim>\<open>originalPosition\<close> is the scene point of its current
  grid coordinate. Every commit leaves it so.
\<close>

definition baked :: "cubie \<Rightarrow> bool" where
  "baked c = (originalPosition c = scene_point (gridPosition c))"

definition engine_inv :: "engine \<Rightarrow> bool" where
  "engine_inv s = (grid_bijection (cubies s) \<and> list_all baked (cubies s))"

section \<open>Theorems\<close>

subsection \<open>The grid under commits and resets\<close>

lemma grid_comprehension:
  "g \<in> set [\<lparr>gx = x, gy = y, gz = z\<rparr>. x \<leftarrow> xs, y \<leftarrow> ys, z \<leftarrow> zs] \<longleftrightarrow>
     gx g \<in> set xs \<and> gy g \<in> set ys \<and> gz g \<in> set zs"
  by (cases g) auto

lemma in_solved_grid:
  "g \<in> set solved_grid \<longleftrightarrow> gx g \<in> {-1, 0, 1} \<and> gy g \<in> {-1, 0, 1} \<and> gz g \<in> {-1, 0, 1}"
  unfolding solved_grid_def grid_comprehension by simp

lemma distinct_solved_grid: "distinct solved_grid"
  by (simp add: solved_grid_def)

lemma length_solved_grid: "length solved_grid = 27"
  by (simp add: solved_grid_def)

lemma gridPosition_commit:
  "gridPosition (if on_layer ax lay c then updateCubiePosition c ax lay dir else c) =
     turned ax lay dir (gridPosition c)"
  by (cases ax) (simp_all add: on_layer_def updateCubiePosition_def turned_def Let_def)

lemma inj_turned: "inj (turned ax lay dir)"
proof (rule injI)
  fix g h
  assume "turned ax lay dir g = turned ax lay dir h"
  then show "g = h"
    by (cases g; cases h; cases ax) (auto simp: turned_def split: if_splits)
qed

lemma turned_in_grid:
  "g \<in> set solved_grid \<Longrightarrow> turned ax lay dir g \<in> set solved_grid"
  by (cases ax) (auto simp: in_solved_grid turned_def)

lemma turned_image: "turned ax lay dir ` set solved_grid = set solved_grid"
proof (rule endo_inj_surj)
  show "finite (set solved_grid)" by simp
  show "turned ax lay dir ` set solved_grid \<subseteq> set solved_grid"
    using turned_in_grid by blast
  show "inj_on (turned ax lay dir) (set solved_grid)"
    using inj_turned by (rule inj_on_subset) simp
qed

lemma grid_bijection_commit:
  assumes "grid_bijection cs"
  shows "grid_bijection
           (map (\<lambda>c. if on_layer ax lay c then updateCubiePosition c ax lay dir else c) cs)"
proof -
  have m: "map gridPosition
             (map (\<lambda>c. if on_layer ax lay c then updateCubiePosition c ax lay dir else c) cs)
           = map (turned ax lay dir) (map gridPosition cs)"
    by (simp add: gridPosition_commit comp_def)
  have d: "distinct (map (turned ax lay dir) (map gridPosition cs))"
    using assms inj_turned [of ax lay dir]
    by (simp only: distinct_map grid_bijection_def) (blast intro: inj_on_subset)
  have "set (map gridPosition cs) = set solved_grid"
    using assms by (simp add: grid_bijection_def)
  then have s: "set (map (turned ax lay dir) (map gridPosition cs)) = set solved_grid"
    using turned_image [of ax lay dir] by (simp only: set_map [of "turned ax lay dir"])
  show ?thesis
    using assms d s unfolding grid_bijection_def m by simp
qed

lemma baked_update: "baked (updateCubiePosition c ax lay dir)"
  by (simp add: baked_def updateCubiePosition_def scene_point_def Let_def)

lemma floor_half: "\<lfloor>rat_of_int k + 1 / 2\<rfloor> = k"
  by (rule floor_unique) simp_all

lemma resetCubie_baked: "baked c \<Longrightarrow> gridPosition (resetCubie c) = gridPosition c"
  by (cases "gridPosition c")
    (simp add: baked_def resetCubie_def scene_point_def Math_round_def cubeSize_def spacing_def
       floor_half)

lemma resetCubie_keeps_baked: "baked c \<Longrightarrow> baked (resetCubie c)"
  using resetCubie_baked [of c] by (simp add: baked_def resetCubie_def)

lemma gridPosition_createCube_from:
  "map gridPosition
     (map (\<lambda>(i, g). \<lparr>position = scene_point g, originalPosition = scene_point g,
                     gridPosition = g, index = i\<rparr>) (enumerate n gs)) = gs"
  by (induction gs arbitrary: n) simp_all

lemma gridPosition_createCube: "map gridPosition createCube = solved_grid"
  unfolding createCube_def by (rule gridPosition_createCube_from)

lemma engine_inv_mounted: "engine_inv mounted"
proof -
  have "length createCube = 27"
    by (simp add: createCube_def length_solved_grid)
  moreover have "list_all baked createCube"
    by (auto simp: createCube_def list_all_iff baked_def)
  ultimately show ?thesis
    by (simp add: engine_inv_def mounted_def grid_bijection_def gridPosition_createCube
        distinct_solved_grid)
qed

lemma engine_inv_executeMove: "engine_inv s \<Longrightarrow> engine_inv (executeMove m s)"
  by (simp add: engine_inv_def executeMove_def)

lemma animateMove_commit:
  "animateMove moveNotation cs =
     (case parseMoveNotation moveNotation of
        None \<Rightarrow> Inl TypeError
      | Some m \<Rightarrow>
          Inr (map (\<lambda>c. if on_layer (axis m) (layer m) c
                         then updateCubiePosition c (axis m) (layer m) (direction m)
                         else c) cs))"
  by (auto simp: animateMove_def getAffectedCubies_def Let_def split: option.splits)

lemma engine_inv_animateMove:
  assumes "engine_inv s" and "animateMove m (cubies s) = Inr cs"
  shows "engine_inv (s\<lparr>cubies := cs\<rparr>)"
proof (cases "parseMoveNotation m")
  case None
  with assms(2) show ?thesis by (simp add: animateMove_commit)
next
  case (Some mv)
  with assms(2) have
    cs: "cs = map (\<lambda>c. if on_layer (axis mv) (layer mv) c
                        then updateCubiePosition c (axis mv) (layer mv) (direction mv)
                        else c) (cubies s)"
    by (auto simp: animateMove_commit)
  have "grid_bijection cs"
    unfolding cs using assms(1) by (intro grid_bijection_commit) (simp add: engine_inv_def)
  moreover have "list_all baked cs"
    unfolding cs using assms(1) by (auto simp: engine_inv_def list_all_iff baked_update)
  ultimately show ?thesis
    by (simp add: engine_inv_def)
qed

lemma engine_inv_settle:
  assumes "engine_inv s"
  shows "engine_inv (settle s)"
proof (cases "running s")
  case None
  then show ?thesis using assms by (simp add: settle_def)
next
  case (Some m)
  define s1 where "s1 = (case animateMove m (cubies s) of
                           Inl e \<Rightarrow> s\<lparr>reported := reported s @ [m]\<rparr>
                         | Inr cs \<Rightarrow> s\<lparr>cubies := cs\<rparr>)"
  have "engine_inv s1"
  proof (cases "animateMove m (cubies s)")
    case (Inl e)
    then show ?thesis using assms by (simp add: s1_def engine_inv_def)
  next
    case (Inr cs)
    then show ?thesis using assms by (simp add: s1_def engine_inv_animateMove)
  qed
  then have "engine_inv (s1\<lparr>isAnimating := False, running := None\<rparr>)"
    by (simp add: engine_inv_def)
  then show ?thesis
    using Some
    by (auto simp: settle_def s1_def [symmetric] Let_def engine_inv_def executeMove_def
        split: list.splits)
qed

lemma engine_inv_resetCube:
  assumes "engine_inv s"
  shows "engine_inv (resetCube s)"
proof -
  have b: "\<forall>c \<in> set (cubies s). baked c"
    using assms by (simp add: engine_inv_def list_all_iff)
  then have eq: "map gridPosition (map resetCubie (cubies s)) = map gridPosition (cubies s)"
    by (simp add: resetCubie_baked)
  have lb: "list_all baked (map resetCubie (cubies s))"
    using b by (simp add: list_all_iff resetCubie_keeps_baked)
  show ?thesis
    using assms unfolding engine_inv_def resetCube_def grid_bijection_def
    by (simp add: eq lb del: map_map)
qed

lemma engine_inv_apply_event: "engine_inv s \<Longrightarrow> engine_inv (apply_event e s)"
  by (cases e)
    (simp_all add: engine_inv_executeMove engine_inv_settle engine_inv_resetCube,
     simp add: engine_inv_def)

lemma engine_inv_fold: "engine_inv s \<Longrightarrow> engine_inv (fold apply_event es s)"
  by (induction es arbitrary: s) (simp_all add: engine_inv_apply_event)

text \<open>
  C7. For every axis and every direction, four applications of the grid rotation that
  \<^verbatim>\<open>updateCubiePosition\<close> commits return the grid coordinate it started from. The source
  tests only \<^verbatim>\<open>direction > 0\<close>, so this holds for every integer direction, +1 and -1
  among them, and for every integer coordinate, those of \<open>{-1,0,1}\<^sup>3\<close> among them.
\<close>

theorem quarter_turn_four_times:
  "gridPosition (updateCubiePosition (updateCubiePosition (updateCubiePosition
     (updateCubiePosition c ax lay dir) ax lay dir) ax lay dir) ax lay dir) = gridPosition c"
  by (cases ax) (simp_all add: updateCubiePosition_def Let_def)

lemma gridPosition_createCube_26: "gridPosition (createCube ! 26) = \<lparr>gx = 1, gy = 1, gz = 1\<rparr>"
  by (simp add: createCube_def solved_grid_def enumerate_eq_zip)

theorem quarter_turn_four_times_witness:
  "gridPosition (updateCubiePosition (updateCubiePosition (updateCubiePosition
     (updateCubiePosition (createCube ! 26) Y 1 (- 1)) Y 1 (- 1)) Y 1 (- 1)) Y 1 (- 1))
     = \<lparr>gx = 1, gy = 1, gz = 1\<rparr>"
  using quarter_turn_four_times [of "createCube ! 26" Y 1 "- 1"]
  by (simp only: gridPosition_createCube_26)

text \<open>
  C2. After any history of events on the mounted component (the scene becoming ready, calls
  of \<^verbatim>\<open>executeMove\<close> with any string, settled animations with their commits, resets),
  the grid coordinates of the 27 cubies are the points of \<open>{-1,0,1}\<^sup>3\<close>, each exactly
  once. The empty history is the initial state.
\<close>

theorem grid_bijection_always: "grid_bijection (cubies (run_events es))"
  using engine_inv_fold [OF engine_inv_mounted, of es]
  by (simp add: run_events_def engine_inv_def)

theorem grid_bijection_always_witness:
  "grid_bijection
     (cubies (run_events [Ready, Execute ''R'', Execute ''X'', Settle, Execute ''U2'', Settle,
                          Reset, Settle]))"
  by (rule grid_bijection_always)


lemmas engine_defs = run_events_def mounted_def createCube_def solved_grid_def executeMove_def
  settle_def animateMove_commit parseMoveNotation_def faceMap_def on_layer_def
  updateCubiePosition_def scene_point_def enumerate_eq_zip Let_def resetCube_def resetCubie_def
  cubeSize_def spacing_def Math_round_def

text \<open>
  C1. A half-turn token commits what the quarter-turn token of its face commits:
  \<^verbatim>\<open>parseMoveNotation\<close> puts the 2 into the duration only, and \<^verbatim>\<open>animateMove\<close>
  calls \<^verbatim>\<open>updateCubiePosition\<close> once per affected cubie. On the solved cube, after
  \<^verbatim>\<open>R2\<close> has been committed twice, the cubie created at (1,1,1) stands at (1,-1,-1),
  not at the coordinate it had before the sequence.
\<close>

theorem half_turn_commits_one_quarter_turn:
  "animateMove ''R2'' cs = animateMove ''R'' cs \<and>
   animateMove ''L2'' cs = animateMove ''L'' cs \<and>
   animateMove ''U2'' cs = animateMove ''U'' cs \<and>
   animateMove ''D2'' cs = animateMove ''D'' cs \<and>
   animateMove ''F2'' cs = animateMove ''F'' cs \<and>
   animateMove ''B2'' cs = animateMove ''B'' cs \<and>
   gridPosition (createCube ! 26) = \<lparr>gx = 1, gy = 1, gz = 1\<rparr> \<and>
   gridPosition (cubies (run_events [Ready, Execute ''R2'', Settle, Execute ''R2'', Settle]) ! 26)
     = \<lparr>gx = 1, gy = - 1, gz = - 1\<rparr>"
  by (simp add: engine_defs)

subsection \<open>Reset\<close>







subsection \<open>Tokens that do not parse\<close>

lemma match_move_tokens: "match_move t = None \<longleftrightarrow> t \<notin> set move_tokens"
  by (induction t rule: match_move.induct) (auto simp: move_tokens_def)

lemma parse_unmatched: "t \<notin> set move_tokens \<Longrightarrow> parseMoveNotation t = None"
  by (simp add: parseMoveNotation_def match_move_tokens [symmetric])

text \<open>
  C8, as the code has it. A token outside the canonical format is not stopped on entry,
  but whenever it is the running move, \<^verbatim>\<open>parseMoveNotation\<close> returns \<^verbatim>\<open>null\<close>, the
  promise rejects, the \<^verbatim>\<open>catch\<close> reports it, no cubie changes, and the
  \<^verbatim>\<open>finally\<close> block goes on with the next queued token, or notifies completion when
  there is none.
\<close>

theorem unparsable_token_dropped_when_run:
  assumes "t \<notin> set move_tokens" and "running s = Some t"
  shows "parseMoveNotation t = None \<and>
         cubies (settle s) = cubies s \<and>
         reported (settle s) = reported s @ [t] \<and>
         (case moveQueue s of
            [] \<Rightarrow> running (settle s) = None \<and> moveQueue (settle s) = [] \<and>
                  completions (settle s) = completions s + 1
          | nextMove # rest \<Rightarrow>
              running (settle s) = (if isReady s then Some nextMove else None) \<and>
              moveQueue (settle s) = (if isReady s then rest else rest @ [nextMove]) \<and>
              completions (settle s) = completions s)"
  using assms
  by (simp add: parse_unmatched settle_def animateMove_def executeMove_def Let_def
      split: list.splits)

lemma busy_state:
  "run_events [Ready, Execute ''X'', Execute ''U''] =
     mounted\<lparr>isReady := True, isAnimating := True, running := Some ''X'',
              moveQueue := [''U'']\<rparr>"
  by (simp add: run_events_def mounted_def executeMove_def)

theorem unparsable_token_dropped_when_run_witness:
  "''X'' \<notin> set move_tokens \<and>
   running (run_events [Ready, Execute ''X'', Execute ''U'']) = Some ''X'' \<and>
   cubies (settle (run_events [Ready, Execute ''X'', Execute ''U''])) =
     cubies (run_events [Ready, Execute ''X'', Execute ''U'']) \<and>
   reported (settle (run_events [Ready, Execute ''X'', Execute ''U''])) = [''X''] \<and>
   running (settle (run_events [Ready, Execute ''X'', Execute ''U''])) = Some ''U''"
  using unparsable_token_dropped_when_run
          [of "''X''" "run_events [Ready, Execute ''X'', Execute ''U'']"]
  by (simp add: busy_state move_tokens_def mounted_def)

text \<open>
  The claim C8 as stated fails: \<^verbatim>\<open>executeMove\<close> does not look at the token before it
  queues it, so while \<^verbatim>\<open>R\<close> is running, the unparsable \<^verbatim>\<open>X\<close> enters the queue.
\<close>

theorem unparsable_token_queued:
  "''X'' \<notin> set move_tokens \<and>
   moveQueue (run_events [Ready, Execute ''R'', Execute ''X'']) = [''X'']"
  by (simp add: move_tokens_def run_events_def mounted_def executeMove_def)

subsection \<open>The normalizer\<close>











subsection \<open>The nibble-packed strategy\<close>

lemma face_field_cases:
  fixes b :: byte
  obtains "b AND 7 = 0" | "b AND 7 = 1" | "b AND 7 = 2" | "b AND 7 = 3"
        | "b AND 7 = 4" | "b AND 7 = 5" | "b AND 7 = 6" | "b AND 7 = 7"
proof -
  have "unat (b AND 7) \<le> 7"
    using word_and_le1 [of b 7] by (simp add: word_le_nat_alt)
  then have "unat (b AND 7) \<in> {0, 1, 2, 3, 4, 5, 6, 7}"
    by auto
  then have "b AND 7 \<in> {0, 1, 2, 3, 4, 5, 6, 7}"
    by (auto simp: word_unat_eq_iff)
  then show ?thesis
    using that by auto
qed

lemma nibble_loop_step:
  assumes "i < length bytes"
  shows "nibble_loop bytes i moves =
           nibble_loop bytes (Suc i) (moves @ nibble_token_spec (bytes ! i))"
  by (rule face_field_cases [of "bytes ! i"])
    (subst nibble_loop.simps,
     simp add: assms nibbleFaceMap_def nibble_token_spec_def Let_def)+

lemma nibble_loop_drop:
  "nibble_loop bytes i moves = moves @ concat (map nibble_token_spec (drop i bytes))"
proof (induction "length bytes - i" arbitrary: i moves)
  case 0
  then have "\<not> i < length bytes" by simp
  then show ?case
    by (subst nibble_loop.simps) simp
next
  case (Suc n)
  then have i: "i < length bytes" and n: "n = length bytes - Suc i"
    by simp_all
  show ?case
    using Suc.hyps(1) [OF n, of "moves @ nibble_token_spec (bytes ! i)"] i
    by (simp add: nibble_loop_step Cons_nth_drop_Suc [symmetric])
qed

text \<open>
  C6, as the code has it. The loop gives, byte by byte and in order, what
  \<^const>\<open>nibble_token_spec\<close> describes: a byte whose face field is 6 or 7 is passed over
  and the scan goes on; turn 0 gives the plain face, turn 1 appends an apostrophe, turn 2
  appends \<^verbatim>\<open>2\<close>, and turn 3 gives the plain face as turn 0 does.
\<close>

theorem nibble_loop_per_byte:
  "nibble_loop bytes 0 [] = concat (map nibble_token_spec bytes)"
  by (simp add: nibble_loop_drop)

theorem nibble_loop_per_byte_witness:
  "nibble_loop [0x08, 0x0E, 0x11, 0x18] 0 [] = [[CHR ''U'', apos], ''R2'', ''U'']"
  using nibble_loop_per_byte [of "[0x08, 0x0E, 0x11, 0x18]"]
  by (simp add: nibble_token_spec_def)

text \<open>
  The claim C6 as stated fails on turn 3: the byte \<^verbatim>\<open>0x18\<close> has face 0 and turn 3,
  and yields the token \<^verbatim>\<open>U\<close>.
\<close>

theorem turn_three_yields_plain_token:
  "(0x18 :: byte) AND 0x07 = 0 \<and> drop_bit 3 (0x18 :: byte) AND 0x03 = 3 \<and>
   nibble_loop [0x18] 0 [] = [''U'']"
  by (simp add: nibble_loop.simps nibbleFaceMap_def Let_def)

subsection \<open>The decoder on concrete payloads\<close>

lemmas decode_defs = parseGanNotification_def text_strategy_def TextDecoder_decode_def
  utf16_units_def text_trim_def is_js_space_def is_separator_def move_chars_test_def
  move_chars_def idxToMove_def nibbleFaceMap_def nibble_loop.simps Let_def char_of_eq_iff








subsection \<open>Single bytes\<close>











subsection \<open>Text payloads\<close>





text \<open>
  C10. The payload that is a single comma: its face field is 4, and the nibble-packed loop
  would read it as \<^verbatim>\<open>L'\<close>, yet the decoder returns the empty sequence. The text
  strategy finds no token in it, \<^verbatim>\<open>every\<close> holds of the empty token list, and the
  empty list is returned before the binary strategies are tried.
\<close>

theorem separator_payload_decodes_empty:
  "(0x2C :: byte) AND 0x07 = 4 \<and>
   nibble_loop [0x2C] 0 [] = [[CHR ''L'', apos]] \<and>
   text_strategy [0x2C] = Some [] \<and>
   parseGanNotification [0x2C] = []"
  by (simp add: decode_defs)

end
